theory Spec2Isabelle
  imports Complex_Main "HOL-Library.Multiset"
begin

section \<open>Numbers\<close>

text \<open>
  A JavaScript number is an IEEE 754 double: a finite value, negative zero, one of the two
  infinities, or \<open>NaN\<close>. \<open>Fin 0\<close> is positive zero. Every arithmetic operation gives the
  exact result rounded to the nearest double, ties to the even significand (\<open>rnd\<close>): 53
  significant bits, the smallest spacing \<open>2^-1074\<close>, and an infinity when the rounded result
  reaches \<open>2^1024\<close>. An undefined operation (\<open>0/0\<close>, \<open>\<infinity> - \<infinity>\<close>, \<open>0 \<times> \<infinity>\<close>) is \<open>NaN\<close>,
  \<open>NaN\<close> is contagious, and every comparison with \<open>NaN\<close> is false.

  A field read from the record set is represented by the number the builtin \<open>Number(...)\<close>
  coercion gives for it, so \<open>NaN\<close> also stands for a missing or non-numeric field.
\<close>

datatype jsnum = Fin real | NZero | PInf | NInf | NaN

fun isFinite :: "jsnum \<Rightarrow> bool" where
  "isFinite (Fin _) = True"
| "isFinite NZero = True"
| "isFinite _ = False"

fun val :: "jsnum \<Rightarrow> real" where
  "val (Fin r) = r"
| "val _ = 0"

fun is_neg :: "jsnum \<Rightarrow> bool" where
  "is_neg (Fin r) = (r < 0)"
| "is_neg NZero = True"
| "is_neg NInf = True"
| "is_neg _ = False"

fun is_inf :: "jsnum \<Rightarrow> bool" where
  "is_inf PInf = True"
| "is_inf NInf = True"
| "is_inf _ = False"

definition is_zero :: "jsnum \<Rightarrow> bool" where
  "is_zero a = (a = Fin 0 \<or> a = NZero)"

text \<open>A zero and an infinity of a given sign; \<open>True\<close> is the negative sign.\<close>

fun signed_zero :: "bool \<Rightarrow> jsnum" where
  "signed_zero True = NZero"
| "signed_zero False = Fin 0"

fun signed_inf :: "bool \<Rightarrow> jsnum" where
  "signed_inf True = NInf"
| "signed_inf False = PInf"

subsection \<open>Rounding to the nearest double\<close>

definition pow2 :: "int \<Rightarrow> real" where
  "pow2 k = 2 powi k"

text \<open>The number of binary digits of a natural number.\<close>

fun bitlen :: "nat \<Rightarrow> nat" where
  "bitlen n = (if n = 0 then 0 else Suc (bitlen (n div 2)))"

text \<open>The binary exponent of a positive real \<open>a\<close>: the \<open>e\<close> with \<open>2^e \<le> a < 2^(e+1)\<close>.\<close>

definition expo :: "real \<Rightarrow> int" where
  "expo a = (if 1 \<le> a then int (bitlen (nat \<lfloor>a\<rfloor>)) - 1
             else - int (bitlen (nat (\<lceil>1 / a\<rceil> - 1))))"

text \<open>The nearest integer to a non-negative real, a tie going to the even one.\<close>

definition round_even :: "real \<Rightarrow> int" where
  "round_even y =
     (let f = \<lfloor>y\<rfloor>; r = y - of_int f
      in if r < 1 / 2 then f else if 1 / 2 < r then f + 1 else if even f then f else f + 1)"

text \<open>
  The magnitude of the nearest double to a positive real, before the check for overflow: the
  spacing of the doubles around \<open>a\<close> is \<open>2^(e - 52)\<close>, and \<open>2^-1074\<close> for the subnormal ones.
\<close>

definition round_mag :: "real \<Rightarrow> real" where
  "round_mag a = (let p = max (expo a - 52) (- 1074) in of_int (round_even (a / pow2 p)) * pow2 p)"

definition rnd :: "real \<Rightarrow> jsnum" where
  "rnd x =
     (if x = 0 then Fin 0
      else if 0 < x then (let v = round_mag x in if pow2 1024 \<le> v then PInf else Fin v)
      else (let v = round_mag (- x)
            in if pow2 1024 \<le> v then NInf else if v = 0 then NZero else Fin (- v)))"

subsection \<open>Arithmetic and comparison\<close>

fun jneg :: "jsnum \<Rightarrow> jsnum" where
  "jneg (Fin a) = (if a = 0 then NZero else Fin (- a))"
| "jneg NZero = Fin 0"
| "jneg PInf = NInf"
| "jneg NInf = PInf"
| "jneg NaN = NaN"

text \<open>A sum that is exactly zero is positive zero unless both operands are negative zero.\<close>

definition jadd :: "jsnum \<Rightarrow> jsnum \<Rightarrow> jsnum" where
  "jadd a b =
     (if a = NaN \<or> b = NaN then NaN
      else if is_inf a then (if is_inf b \<and> a \<noteq> b then NaN else a)
      else if is_inf b then b
      else if a = NZero \<and> b = NZero then NZero
      else rnd (val a + val b))"

definition jsub :: "jsnum \<Rightarrow> jsnum \<Rightarrow> jsnum" where
  "jsub a b = jadd a (jneg b)"

text \<open>The sign of a product or quotient is negative when the signs of the operands differ.\<close>

definition jmul :: "jsnum \<Rightarrow> jsnum \<Rightarrow> jsnum" where
  "jmul a b =
     (if a = NaN \<or> b = NaN then NaN
      else if is_inf a \<or> is_inf b
        then (if is_zero a \<or> is_zero b then NaN else signed_inf (is_neg a \<noteq> is_neg b))
      else if is_zero a \<or> is_zero b then signed_zero (is_neg a \<noteq> is_neg b)
      else rnd (val a * val b))"

definition jdiv :: "jsnum \<Rightarrow> jsnum \<Rightarrow> jsnum" where
  "jdiv a b =
     (if a = NaN \<or> b = NaN then NaN
      else if is_inf a then (if is_inf b then NaN else signed_inf (is_neg a \<noteq> is_neg b))
      else if is_inf b then signed_zero (is_neg a \<noteq> is_neg b)
      else if is_zero b then (if is_zero a then NaN else signed_inf (is_neg a \<noteq> is_neg b))
      else if is_zero a then signed_zero (is_neg a \<noteq> is_neg b)
      else rnd (val a / val b))"

fun jabs :: "jsnum \<Rightarrow> jsnum" where
  "jabs (Fin a) = Fin \<bar>a\<bar>"
| "jabs NZero = Fin 0"
| "jabs PInf = PInf"
| "jabs NInf = PInf"
| "jabs NaN = NaN"

text \<open>\<open>jlt a b\<close> is \<open>a < b\<close> and \<open>jge a b\<close> is \<open>a >= b\<close>; the two zeros are equal.\<close>

definition jlt :: "jsnum \<Rightarrow> jsnum \<Rightarrow> bool" where
  "jlt a b =
     (a \<noteq> NaN \<and> b \<noteq> NaN \<and>
      (if a = NInf then b \<noteq> NInf
       else if a = PInf then False
       else b = PInf \<or> (isFinite b \<and> val a < val b)))"

definition jge :: "jsnum \<Rightarrow> jsnum \<Rightarrow> bool" where
  "jge a b = (a \<noteq> NaN \<and> b \<noteq> NaN \<and> \<not> jlt a b)"

text \<open>\<open>Math.min\<close> of two numbers; negative zero is the smaller zero.\<close>

definition jmin :: "jsnum \<Rightarrow> jsnum \<Rightarrow> jsnum" where
  "jmin a b =
     (if a = NaN \<or> b = NaN then NaN
      else if is_zero a \<and> is_zero b then signed_zero (a = NZero \<or> b = NZero)
      else if jlt b a then b else a)"

text \<open>
  \<^verbatim>\<open>function sum(arr) { return arr.reduce((a, b) => a + (Number.isFinite(b) ? b : 0), 0); }\<close>
\<close>

definition sum_js :: "jsnum list \<Rightarrow> jsnum" where
  "sum_js arr = foldl (\<lambda>a b. jadd a (if isFinite b then b else Fin 0)) (Fin 0) arr"

text \<open>
  \<^verbatim>\<open>function ensureNumber(n, fallback = 0) { const x = Number(n); return Number.isFinite(x) ? x : fallback; }\<close>
  The argument is already the coerced number.
\<close>

definition ensureNumber :: "jsnum \<Rightarrow> jsnum \<Rightarrow> jsnum" where
  "ensureNumber x fallback = (if isFinite x then x else fallback)"

section \<open>Plain objects\<close>

text \<open>
  What a read of a property of a plain object (\<open>{}\<close>) used as a \<open>Record<string, number>\<close> can
  give: \<open>undefined\<close>, a number, or something that is not a number. \<open>NonNum\<close> stands for an
  object, a function, or a string made by concatenating one of them with a number: each is
  truthy, none is \<open>undefined\<close> or \<open>null\<close>, and \<open>Number(...)\<close> of each is \<open>NaN\<close>.
\<close>

datatype slot = Undefined | Num jsnum | NonNum

text \<open>
  The own properties of the object, in the order of their creation. A key that is not an own
  property is looked up in \<open>Object.prototype\<close>, whose properties are functions, except
  \<open>__proto__\<close>: reading it gives the prototype object, and assigning a number or a string
  to it does nothing.
\<close>

type_synonym obj = "(string \<times> slot) list"

definition proto_functions :: "string list" where
  "proto_functions =
     [''constructor'', ''__defineGetter__'', ''__defineSetter__'', ''hasOwnProperty'',
      ''__lookupGetter__'', ''__lookupSetter__'', ''isPrototypeOf'', ''propertyIsEnumerable'',
      ''toString'', ''valueOf'', ''toLocaleString'']"

definition obj_get :: "obj \<Rightarrow> string \<Rightarrow> slot" where
  "obj_get ob k =
     (if k = ''__proto__'' then NonNum
      else case map_of ob k of
             Some v \<Rightarrow> v
           | None \<Rightarrow> if k \<in> set proto_functions then NonNum else Undefined)"

fun obj_put :: "obj \<Rightarrow> string \<Rightarrow> slot \<Rightarrow> obj" where
  "obj_put [] k v = [(k, v)]"
| "obj_put ((k', v') # r) k v = (if k' = k then (k', v) # r else (k', v') # obj_put r k v)"

definition obj_set :: "obj \<Rightarrow> string \<Rightarrow> slot \<Rightarrow> obj" where
  "obj_set ob k v = (if k = ''__proto__'' then ob else obj_put ob k v)"

text \<open>
  \<open>Object.values\<close> lists the own properties whose key is an array index (a canonical decimal
  numeral below \<open>2^32 - 1\<close>) first, in ascending order, and then the others in the order of
  their creation.
\<close>

definition digit_of :: "char \<Rightarrow> nat option" where
  "digit_of c = (let n = (of_char c :: nat) in if 48 \<le> n \<and> n \<le> 57 then Some (n - 48) else None)"

fun decimal :: "nat \<Rightarrow> string \<Rightarrow> nat option" where
  "decimal acc [] = Some acc"
| "decimal acc (c # cs) =
     (case digit_of c of None \<Rightarrow> None | Some d \<Rightarrow> decimal (10 * acc + d) cs)"

definition index_of :: "string \<Rightarrow> nat option" where
  "index_of k =
     (if k = [] \<or> (hd k = CHR ''0'' \<and> k \<noteq> ''0'') then None
      else case decimal 0 k of
             None \<Rightarrow> None
           | Some n \<Rightarrow> if n < 4294967295 then Some n else None)"

definition index_key :: "string \<times> slot \<Rightarrow> nat" where
  "index_key e = (case index_of (fst e) of None \<Rightarrow> 0 | Some n \<Rightarrow> n)"

definition obj_values :: "obj \<Rightarrow> slot list" where
  "obj_values ob =
     map snd (sort_key index_key (filter (\<lambda>e. index_of (fst e) \<noteq> None) ob) @
              filter (\<lambda>e. index_of (fst e) = None) ob)"

text \<open>
  \<open>Number(x)\<close>; \<open>!x\<close>; \<open>x ?? d\<close>; and \<open>x + n\<close> and \<open>x - n\<close> for a number \<open>n\<close>: \<open>+\<close> concatenates
  when \<open>x\<close> is not a number, \<open>-\<close> converts \<open>x\<close> to a number first.
\<close>

fun to_num :: "slot \<Rightarrow> jsnum" where
  "to_num (Num x) = x"
| "to_num _ = NaN"

fun falsy :: "slot \<Rightarrow> bool" where
  "falsy Undefined = True"
| "falsy (Num x) = (is_zero x \<or> x = NaN)"
| "falsy NonNum = False"

fun nullish :: "slot \<Rightarrow> slot \<Rightarrow> slot" where
  "nullish Undefined d = d"
| "nullish x d = x"

fun plus_num :: "slot \<Rightarrow> jsnum \<Rightarrow> slot" where
  "plus_num NonNum n = NonNum"
| "plus_num x n = Num (jadd (to_num x) n)"

definition minus_num :: "slot \<Rightarrow> jsnum \<Rightarrow> slot" where
  "minus_num x n = Num (jsub (to_num x) n)"

section \<open>The record set\<close>

text \<open>
  The currencies, asset types and transaction kinds are strings; the record set may hold
  others than the listed ones, as an imported document is not validated.
\<close>

definition ASSET_TYPES :: "string list" where
  "ASSET_TYPES = [''Cash'', ''Stock'', ''ETF'', ''Bond'', ''Crypto'', ''Real Estate'', ''Other'']"

record settings =
  baseCurrency :: string
  usdKrw :: jsnum
  riskProfile :: string
  showAdvanced :: bool

record account =
  acc_id :: string
  acc_name :: string
  acc_type :: string
  acc_currency :: string
  openingBalance :: jsnum

record transaction =
  tx_id :: string
  tx_date :: string
  accountId :: string
  tx_kind :: string
  amount :: jsnum
  fee :: jsnum
  tax :: jsnum
  tx_note :: string

record position =
  pos_id :: string
  pos_accountId :: string
  symbol :: string
  pos_name :: string
  assetType :: string
  qty :: jsnum
  avgPrice :: jsnum
  pos_currency :: string
  lastPrice :: jsnum

record goal =
  goal_id :: string
  goal_name :: string
  target :: jsnum
  deadline :: string
  accountIds :: "string list"
  goal_note :: string

text \<open>
  A target percentage or the threshold may be absent (\<open>undefined\<close> or \<open>null\<close>), which the
  code replaces by a default with \<open>??\<close>.
\<close>

record targets =
  allocation :: "string \<Rightarrow> jsnum option"
  driftThreshold :: "jsnum option"

record state =
  settings :: settings
  accounts :: "account list"
  transactions :: "transaction list"
  positions :: "position list"
  goals :: "goal list"
  targets :: targets

section \<open>Mutators\<close>

text \<open>
  \<^verbatim>\<open>setState(s => ({ ...s,
       accounts: s.accounts.filter(a => a.id !== id),
       transactions: s.transactions.filter(t => t.accountId !== id),
       positions: s.positions.filter(p => p.accountId !== id) }))\<close>
\<close>

definition removeAccount :: "string \<Rightarrow> state \<Rightarrow> state" where
  "removeAccount i s =
     s\<lparr>accounts := filter (\<lambda>a. acc_id a \<noteq> i) (accounts s),
       transactions := filter (\<lambda>t. accountId t \<noteq> i) (transactions s),
       positions := filter (\<lambda>p. pos_accountId p \<noteq> i) (positions s)\<rparr>"

section \<open>Derived data\<close>

text \<open>\<^verbatim>\<open>const fx = { USD_KRW: ensureNumber(state.settings.usdKrw, 1350) }\<close>\<close>

definition USD_KRW :: "state \<Rightarrow> jsnum" where
  "USD_KRW s = ensureNumber (usdKrw (settings s)) (Fin 1350)"

text \<open>
  \<^verbatim>\<open>function toBase(amount, currency) {
    if (state.settings.baseCurrency === currency) return amount;
    if (currency === "USD" && state.settings.baseCurrency === "KRW") return amount * fx.USD_KRW;
    if (currency === "KRW" && state.settings.baseCurrency === "USD") return amount / fx.USD_KRW;
    return amount; }\<close>
\<close>

definition toBase :: "state \<Rightarrow> jsnum \<Rightarrow> string \<Rightarrow> jsnum" where
  "toBase s amt cur =
     (if baseCurrency (settings s) = cur then amt
      else if cur = ''USD'' \<and> baseCurrency (settings s) = ''KRW'' then jmul amt (USD_KRW s)
      else if cur = ''KRW'' \<and> baseCurrency (settings s) = ''USD'' then jdiv amt (USD_KRW s)
      else amt)"

subsection \<open>Account balances\<close>

text \<open>
  The body of the loop over the transactions; \<open>flows\<close> is a plain object.
  \<^verbatim>\<open>const s = Math.sign(1);
  const amt = ensureNumber(t.amount) - ensureNumber(t.fee) - ensureNumber(t.tax);
  if (!flows[t.accountId]) flows[t.accountId] = 0;
  if (t.type === "Deposit" || t.type === "Income" || t.type === "Sell") flows[t.accountId] += amt * s;
  if (t.type === "Withdraw" || t.type === "Expense" || t.type === "Buy") flows[t.accountId] -= amt * s;\<close>
\<close>

definition tx_amt :: "transaction \<Rightarrow> jsnum" where
  "tx_amt t =
     jsub (jsub (ensureNumber (amount t) (Fin 0)) (ensureNumber (fee t) (Fin 0)))
       (ensureNumber (tax t) (Fin 0))"

definition flow_step :: "transaction \<Rightarrow> obj \<Rightarrow> obj" where
  "flow_step t flows =
     (let s = Fin 1;
          amt = tx_amt t;
          k = accountId t;
          f1 = (if falsy (obj_get flows k) then obj_set flows k (Num (Fin 0)) else flows);
          f2 = (if tx_kind t = ''Deposit'' \<or> tx_kind t = ''Income'' \<or> tx_kind t = ''Sell''
                then obj_set f1 k (plus_num (obj_get f1 k) (jmul amt s)) else f1);
          f3 = (if tx_kind t = ''Withdraw'' \<or> tx_kind t = ''Expense'' \<or> tx_kind t = ''Buy''
                then obj_set f2 k (minus_num (obj_get f2 k) (jmul amt s)) else f2)
      in f3)"

text \<open>\<^verbatim>\<open>for (const a of state.accounts) flows[a.id] = ensureNumber(a.openingBalance);\<close>\<close>

definition opening_step :: "account \<Rightarrow> obj \<Rightarrow> obj" where
  "opening_step a flows = obj_set flows (acc_id a) (Num (ensureNumber (openingBalance a) (Fin 0)))"

definition opening_flows :: "account list \<Rightarrow> obj" where
  "opening_flows accs = fold opening_step accs []"

definition cashFlows :: "account list \<Rightarrow> transaction list \<Rightarrow> obj" where
  "cashFlows accs txs = fold flow_step txs (opening_flows accs)"

text \<open>
  \<^verbatim>\<open>state.accounts.map(a => ({ ...a, balance: ensureNumber(cashFlows[a.id]),
       balanceBase: toBase(ensureNumber(cashFlows[a.id]), a.currency) }))\<close>
\<close>

record account_balance =
  ab_account :: account
  balance :: jsnum
  balanceBase :: jsnum

definition accountBalances :: "state \<Rightarrow> account_balance list" where
  "accountBalances s =
     map (\<lambda>a. \<lparr>ab_account = a,
               balance =
                 ensureNumber (to_num (obj_get (cashFlows (accounts s) (transactions s)) (acc_id a)))
                   (Fin 0),
               balanceBase =
                 toBase s
                   (ensureNumber (to_num (obj_get (cashFlows (accounts s) (transactions s)) (acc_id a)))
                      (Fin 0))
                   (acc_currency a)\<rparr>)
       (accounts s)"

subsection \<open>Position valuations\<close>

text \<open>
  \<^verbatim>\<open>state.positions.map(p => ({ ...p,
       marketValue: ensureNumber(p.qty) * ensureNumber(p.lastPrice),
       marketValueBase: toBase(ensureNumber(p.qty) * ensureNumber(p.lastPrice), p.currency),
       pnl: (ensureNumber(p.lastPrice) - ensureNumber(p.avgPrice)) * ensureNumber(p.qty),
       pnlPct: (ensureNumber(p.lastPrice) / ensureNumber(p.avgPrice) - 1) * 100 }))\<close>
\<close>

record position_mv =
  pv_position :: position
  marketValue :: jsnum
  marketValueBase :: jsnum
  pnl :: jsnum
  pnlPct :: jsnum

definition valuation :: "state \<Rightarrow> position \<Rightarrow> position_mv" where
  "valuation s p =
     \<lparr>pv_position = p,
      marketValue = jmul (ensureNumber (qty p) (Fin 0)) (ensureNumber (lastPrice p) (Fin 0)),
      marketValueBase =
        toBase s (jmul (ensureNumber (qty p) (Fin 0)) (ensureNumber (lastPrice p) (Fin 0)))
          (pos_currency p),
      pnl = jmul (jsub (ensureNumber (lastPrice p) (Fin 0)) (ensureNumber (avgPrice p) (Fin 0)))
              (ensureNumber (qty p) (Fin 0)),
      pnlPct = jmul (jsub (jdiv (ensureNumber (lastPrice p) (Fin 0))
                                (ensureNumber (avgPrice p) (Fin 0))) (Fin 1)) (Fin 100)\<rparr>"

definition positionsMV :: "state \<Rightarrow> position_mv list" where
  "positionsMV s = map (valuation s) (positions s)"

subsection \<open>Totals by asset type and allocation\<close>

text \<open>
  \<open>totals\<close> is a plain object keyed by the type string.
  \<^verbatim>\<open>totals[t] = (totals[t] ?? 0) + v\<close>
\<close>

definition add_total :: "string \<Rightarrow> jsnum \<Rightarrow> obj \<Rightarrow> obj" where
  "add_total t v totals = obj_set totals t (plus_num (nullish (obj_get totals t) (Num (Fin 0))) v)"

definition totalsByType :: "state \<Rightarrow> obj" where
  "totalsByType s =
     fold (\<lambda>p. add_total (assetType (pv_position p)) (marketValueBase p)) (positionsMV s)
       (fold (\<lambda>a. add_total (acc_type (ab_account a)) (balanceBase a)) (accountBalances s) [])"

text \<open>
  \<^verbatim>\<open>const totalAssetsBase = sum(Object.values(totalsByType))\<close>
  \<open>Number.isFinite\<close> is false of a value that is not a number, as it is of \<open>NaN\<close>.
\<close>

definition totalAssetsBase :: "state \<Rightarrow> jsnum" where
  "totalAssetsBase s = sum_js (map to_num (obj_values (totalsByType s)))"

text \<open>
  \<^verbatim>\<open>for (const t of ASSET_TYPES) {
    const v = totalsByType[t] ?? 0;
    obj[t] = totalAssetsBase > 0 ? (v / totalAssetsBase) * 100 : 0; }\<close>
  The result has exactly the listed types as keys.
\<close>

type_synonym allocation_map = "(string \<times> jsnum) list"

definition type_total :: "obj \<Rightarrow> string \<Rightarrow> jsnum" where
  "type_total tot t = to_num (nullish (obj_get tot t) (Num (Fin 0)))"

definition allocationOf :: "obj \<Rightarrow> jsnum \<Rightarrow> allocation_map" where
  "allocationOf tot grand =
     map (\<lambda>t. (t, if jlt (Fin 0) grand then jmul (jdiv (type_total tot t) grand) (Fin 100) else Fin 0))
       ASSET_TYPES"

definition allocationActual :: "state \<Rightarrow> allocation_map" where
  "allocationActual s = allocationOf (totalsByType s) (totalAssetsBase s)"

text \<open>\<open>m[t] ?? 0\<close> on such a map.\<close>

definition lookup0 :: "allocation_map \<Rightarrow> string \<Rightarrow> jsnum" where
  "lookup0 m t = (case map_of m t of None \<Rightarrow> Fin 0 | Some v \<Rightarrow> v)"

subsection \<open>Drift\<close>

text \<open>
  \<open>Array.prototype.sort\<close> with a comparison function is stable; a comparison result that is
  \<open>NaN\<close> counts as \<open>0\<close>. \<open>x\<close> moves behind \<open>y\<close> only when the comparison of \<open>x\<close> with \<open>y\<close> is
  positive. For a consistent comparison function this is the one stable sorted order. When
  the comparison function is not consistent, which here needs a compared value that is
  \<open>NaN\<close>, the language leaves the order to the implementation and the definition gives one
  possible order.
\<close>

fun js_insert :: "('a \<Rightarrow> 'a \<Rightarrow> jsnum) \<Rightarrow> 'a \<Rightarrow> 'a list \<Rightarrow> 'a list" where
  "js_insert cmp x [] = [x]"
| "js_insert cmp x (y # ys) =
     (if jlt (Fin 0) (cmp x y) then y # js_insert cmp x ys else x # y # ys)"

fun js_sort :: "('a \<Rightarrow> 'a \<Rightarrow> jsnum) \<Rightarrow> 'a list \<Rightarrow> 'a list" where
  "js_sort cmp [] = []"
| "js_sort cmp (x # xs) = js_insert cmp x (js_sort cmp xs)"

record drift_entry =
  d_type :: string
  d_target :: jsnum
  d_actual :: jsnum
  diff :: jsnum

text \<open>
  \<^verbatim>\<open>for (const t of ASSET_TYPES) {
    const target = state.targets.allocation[t] ?? 0;
    const actual = allocationActual[t] ?? 0;
    out.push({ type: t, target, actual, diff: (actual - target) }); }
  return out.sort((a, b) => Math.abs(b.diff) - Math.abs(a.diff));\<close>
\<close>

definition drift_out :: "targets \<Rightarrow> allocation_map \<Rightarrow> drift_entry list" where
  "drift_out tg alloc =
     map (\<lambda>t. let tgt = (case allocation tg t of None \<Rightarrow> Fin 0 | Some v \<Rightarrow> v);
                   act = lookup0 alloc t
               in \<lparr>d_type = t, d_target = tgt, d_actual = act, diff = jsub act tgt\<rparr>)
       ASSET_TYPES"

text \<open>
  The comparison function, and the body of the memo as a function of its two dependencies,
  the targets and the actual allocation.
\<close>

definition drift_cmp :: "drift_entry \<Rightarrow> drift_entry \<Rightarrow> jsnum" where
  "drift_cmp a b = jsub (jabs (diff b)) (jabs (diff a))"

definition computeDrift :: "targets \<Rightarrow> allocation_map \<Rightarrow> drift_entry list" where
  "computeDrift tg alloc = js_sort drift_cmp (drift_out tg alloc)"

definition drift :: "state \<Rightarrow> drift_entry list" where
  "drift s = computeDrift (targets s) (allocationActual s)"

text \<open>
  \<^verbatim>\<open>const rebalanceAlerts = drift.filter(d => Math.abs(d.diff) >= (state.targets.driftThreshold ?? 5));\<close>
\<close>

definition threshold :: "targets \<Rightarrow> jsnum" where
  "threshold tg = (case driftThreshold tg of None \<Rightarrow> Fin 5 | Some v \<Rightarrow> v)"

definition alerting :: "targets \<Rightarrow> drift_entry \<Rightarrow> bool" where
  "alerting tg d = jge (jabs (diff d)) (threshold tg)"

definition rebalanceAlerts :: "state \<Rightarrow> drift_entry list" where
  "rebalanceAlerts s = filter (alerting (targets s)) (drift s)"

section \<open>Advice, goals and import\<close>

text \<open>
  The messages shown with \<open>alert\<close>, by what they report: that no rebalancing can be
  proposed; a proposal with the type to move from, the type to move to, the percentage,
  the base currency and the amount; that the imported text is not JSON.
\<close>

datatype alert = NoSuggestion | Suggestion string string jsnum string jsnum | ParseFailed

text \<open>\<open>xs[0]\<close>, which is \<open>undefined\<close> on an empty array.\<close>

definition first :: "'a list \<Rightarrow> 'a option" where
  "first xs = (case xs of [] \<Rightarrow> None | x # _ \<Rightarrow> Some x)"

text \<open>
  \<^verbatim>\<open>function suggestRebalance(assetType) {
    const over = drift.filter(d=>d.diff>0).sort((a,b)=>b.diff-a.diff)[0];
    const under = drift.filter(d=>d.diff<0).sort((a,b)=>a.diff-b.diff)[0];
    if (!over || !under) { alert(...); return; }
    const movePct = Math.min(over.diff, -under.diff);
    const moveAmount = totalAssetsBase * (movePct/100);
    alert(...); }\<close>
\<close>

definition most_over :: "drift_entry list \<Rightarrow> drift_entry option" where
  "most_over dr =
     first (js_sort (\<lambda>a b. jsub (diff b) (diff a)) (filter (\<lambda>d. jlt (Fin 0) (diff d)) dr))"

definition most_under :: "drift_entry list \<Rightarrow> drift_entry option" where
  "most_under dr =
     first (js_sort (\<lambda>a b. jsub (diff a) (diff b)) (filter (\<lambda>d. jlt (diff d) (Fin 0)) dr))"

definition suggestRebalance :: "state \<Rightarrow> string \<Rightarrow> alert" where
  "suggestRebalance s clicked =
     (case most_over (drift s) of
        None \<Rightarrow> NoSuggestion
      | Some ov \<Rightarrow>
          (case most_under (drift s) of
             None \<Rightarrow> NoSuggestion
           | Some un \<Rightarrow>
               (let movePct = jmin (diff ov) (jneg (diff un));
                    moveAmount = jmul (totalAssetsBase s) (jdiv movePct (Fin 100))
                in Suggestion (d_type ov) (d_type un) movePct
                     (baseCurrency (settings s)) moveAmount)))"

text \<open>
  \<^verbatim>\<open>function progressFor(goal) {
    const linked = accountBalances.filter(a => goal.accountIds.includes(a.id));
    const val = sum(linked.map(a => a.balanceBase));
    const pct = goal.target > 0 ? (val/goal.target)*100 : 0;
    return { val, pct }; }\<close>
\<close>

definition progressFor :: "state \<Rightarrow> goal \<Rightarrow> jsnum \<times> jsnum" where
  "progressFor s g =
     (let linked = filter (\<lambda>a. acc_id (ab_account a) \<in> set (accountIds g)) (accountBalances s);
          v = sum_js (map balanceBase linked);
          pct = (if jlt (Fin 0) (target g) then jmul (jdiv v (target g)) (Fin 100) else Fin 0)
      in (v, pct))"

text \<open>
  \<^verbatim>\<open>reader.onload = () => {
    try { const next = JSON.parse(String(reader.result)); setState(next); }
    catch (e) { alert(...); } };\<close>
  \<open>JSON.parse\<close> is a parameter: it gives the parsed record set, or nothing when it throws.
  The result is the record set afterwards and the messages shown.
\<close>

definition importJSON :: "(string \<Rightarrow> state option) \<Rightarrow> string \<Rightarrow> state \<Rightarrow> state \<times> alert list" where
  "importJSON parse text s =
     (case parse text of
        Some next \<Rightarrow> (next, [])
      | None \<Rightarrow> (s, [ParseFailed]))"

section \<open>Example record sets\<close>

text \<open>
  Two accounts with a deposit and a purchase whose tax field is not a number; a goal linked
  to an account and to an id that matches none.
\<close>

definition demo_settings :: settings where
  "demo_settings = \<lparr>baseCurrency = ''KRW'', usdKrw = Fin 1350, riskProfile = ''Neutral'', showAdvanced = True\<rparr>"

definition demo_accounts :: "account list" where
  "demo_accounts =
     [\<lparr>acc_id = ''a1'', acc_name = ''checking'', acc_type = ''Cash'', acc_currency = ''KRW'',
       openingBalance = Fin 2000000\<rparr>,
      \<lparr>acc_id = ''a2'', acc_name = ''broker'', acc_type = ''Stock'', acc_currency = ''KRW'',
       openingBalance = Fin 10000000\<rparr>]"

definition demo_transactions :: "transaction list" where
  "demo_transactions =
     [\<lparr>tx_id = ''t1'', tx_date = ''2025-01-15'', accountId = ''a1'', tx_kind = ''Deposit'',
       amount = Fin 1000000, fee = Fin 0, tax = Fin 0, tx_note = ''seed''\<rparr>,
      \<lparr>tx_id = ''t2'', tx_date = ''2025-02-03'', accountId = ''a2'', tx_kind = ''Buy'',
       amount = Fin 500000, fee = Fin 1000, tax = NaN, tx_note = ''buy''\<rparr>]"

definition demo_allocation :: "string \<Rightarrow> jsnum option" where
  "demo_allocation t =
     map_of [(''Cash'', Fin 20), (''Stock'', Fin 45), (''ETF'', Fin 15), (''Bond'', Fin 10),
             (''Crypto'', Fin 5), (''Real Estate'', Fin 5), (''Other'', Fin 0)] t"

definition demo_targets :: targets where
  "demo_targets = \<lparr>allocation = demo_allocation, driftThreshold = Some (Fin 5)\<rparr>"

definition demo_state :: state where
  "demo_state =
     \<lparr>settings = demo_settings, accounts = demo_accounts, transactions = demo_transactions,
      positions = [], goals = [], targets = demo_targets\<rparr>"

definition demo_goal :: goal where
  "demo_goal =
     \<lparr>goal_id = ''g1'', goal_name = ''reserve'', target = Fin 3000000, deadline = ''2026-06-30'',
      accountIds = [''a1'', ''gone''], goal_note = ''''\<rparr>"

text \<open>A position as the form for adding a position starts it.\<close>

definition blank_position :: position where
  "blank_position =
     \<lparr>pos_id = ''p1'', pos_accountId = ''a2'', symbol = ''NEW'', pos_name = ''new'',
      assetType = ''Stock'', qty = Fin 0, avgPrice = Fin 0, pos_currency = ''KRW'', lastPrice = Fin 0\<rparr>"

section \<open>Rounding\<close>

declare bitlen.simps [simp del]

lemma pow2_pos [simp]: "0 < pow2 k"
  by (simp add: pow2_def)

lemma pow2_nonneg [simp]: "0 \<le> pow2 k"
  by (simp add: pow2_def)

lemma pow2_neq0 [simp]: "pow2 k \<noteq> 0"
  by (simp add: pow2_def)

lemma pow2_add: "pow2 (a + b) = pow2 a * pow2 b"
  by (simp add: pow2_def power_int_add)

lemma pow2_nat: "pow2 (int n) = 2 ^ n"
  by (simp add: pow2_def)

lemma pow2_neg_nat: "pow2 (- int n) = 1 / 2 ^ n"
  by (simp add: pow2_def power_int_minus field_simps)

lemma pow2_less: "a < b \<Longrightarrow> pow2 a < pow2 b"
  by (simp add: pow2_def power_int_strict_increasing)

lemma pow2_le: "a \<le> b \<Longrightarrow> pow2 a \<le> pow2 b"
  by (simp add: pow2_def power_int_increasing)

lemma pow2_Suc: "pow2 (k + 1) = 2 * pow2 k"
  by (simp add: pow2_def power_int_add_1)

lemma bitlen_bounds: "0 < n \<Longrightarrow> 2 ^ (bitlen n - 1) \<le> n \<and> n < 2 ^ bitlen n"
proof (induction n rule: bitlen.induct)
  case (1 n)
  show ?case
  proof (cases "n div 2 = 0")
    case True
    with "1.prems" have "n = 1" by (simp add: div_eq_0_iff) 
    then show ?thesis by (simp add: bitlen.simps)
  next
    case False
    then have pos: "0 < n div 2" by simp
    have ih: "2 ^ (bitlen (n div 2) - 1) \<le> n div 2 \<and> n div 2 < 2 ^ bitlen (n div 2)"
      using "1.IH" "1.prems" pos by simp
    have b: "bitlen n = Suc (bitlen (n div 2))"
      using "1.prems" by (subst bitlen.simps) simp
    have b1: "0 < bitlen (n div 2)" using pos by (subst bitlen.simps) simp
    have "(2::nat) ^ bitlen (n div 2) = 2 * 2 ^ (bitlen (n div 2) - 1)"
      using b1 by (cases "bitlen (n div 2)") simp_all
    then have lo: "2 ^ bitlen (n div 2) \<le> n" using ih by linarith
    have hi: "n < 2 * 2 ^ bitlen (n div 2)" using ih by linarith
    show ?thesis using lo hi by (simp add: b)
  qed
qed

lemma bitlen_pos: "0 < n \<Longrightarrow> 0 < bitlen n"
  by (subst bitlen.simps) simp

lemma expo_bounds:
  assumes "0 < a"
  shows "pow2 (expo a) \<le> a \<and> a < pow2 (expo a + 1)"
proof (cases "1 \<le> a")
  case True
  define n where "n = nat \<lfloor>a\<rfloor>"
  have n: "0 < n" using True by (simp add: n_def)
  have e: "expo a = int (bitlen n) - 1" using True by (simp add: expo_def n_def)
  have bl: "0 < bitlen n" using n by (rule bitlen_pos)
  then have e': "expo a = int (bitlen n - 1)" using e by simp
  have bb: "2 ^ (bitlen n - 1) \<le> n \<and> n < 2 ^ bitlen n" using n by (rule bitlen_bounds)
  have na: "real n \<le> a" using True by (simp add: n_def)
  have an: "a < real n + 1" using True by (simp add: n_def)
  have "pow2 (expo a) = 2 ^ (bitlen n - 1)" by (simp add: e' pow2_nat)
  also have "\<dots> \<le> real n" using bb by (metis of_nat_le_iff of_nat_numeral of_nat_power)
  finally have lo: "pow2 (expo a) \<le> a" using na by simp
  have "expo a + 1 = int (bitlen n)" using e by simp
  then have "pow2 (expo a + 1) = 2 ^ bitlen n" by (simp add: pow2_nat)
  moreover have "real n + 1 \<le> 2 ^ bitlen n"
  proof -
    have "n + 1 \<le> 2 ^ bitlen n" using bb by simp
    then have "real (n + 1) \<le> real (2 ^ bitlen n)" by (rule of_nat_mono)
    then show ?thesis by simp
  qed
  ultimately show ?thesis using lo an by simp
next
  case False
  then have a1: "a < 1" by simp
  define c where "c = \<lceil>1 / a\<rceil>"
  define k where "k = nat (c - 1)"
  have inv: "1 < 1 / a" using assms a1 by simp
  then have c2: "2 \<le> c" unfolding c_def by linarith
  have k: "0 < k" using c2 by (simp add: k_def)
  have kc: "int k = c - 1" using c2 by (simp add: k_def)
  have e: "expo a = - int (bitlen k)" using False by (simp add: expo_def k_def c_def)
  have bb: "2 ^ (bitlen k - 1) \<le> k \<and> k < 2 ^ bitlen k" using k by (rule bitlen_bounds)
  have bl: "0 < bitlen k" using k by (rule bitlen_pos)
  have up: "1 / a \<le> of_int c" unfolding c_def by simp
  have lowc: "of_int c - 1 < 1 / a" unfolding c_def by linarith
  have "int k + 1 \<le> int (2 ^ bitlen k)" using bb by linarith
  then have "c \<le> 2 ^ bitlen k" using kc by simp
  then have "(of_int c :: real) \<le> of_int (2 ^ bitlen k)" by (simp only: of_int_le_iff)
  then have "(of_int c :: real) \<le> 2 ^ bitlen k" by simp
  then have "1 / a \<le> 2 ^ bitlen k" using up by linarith
  then have "1 \<le> a * 2 ^ bitlen k" using assms by (simp add: field_simps)
  then have lo: "pow2 (expo a) \<le> a" by (simp add: e pow2_neg_nat field_simps)
  have "int (2 ^ (bitlen k - 1)) \<le> int k" using bb by linarith
  then have "2 ^ (bitlen k - 1) \<le> c - 1" using kc by simp
  then have "(of_int (2 ^ (bitlen k - 1)) :: real) \<le> of_int (c - 1)" by (simp only: of_int_le_iff)
  then have "(2 :: real) ^ (bitlen k - 1) \<le> of_int c - 1" by simp
  then have "2 ^ (bitlen k - 1) < 1 / a" using lowc by linarith
  then have "a * 2 ^ (bitlen k - 1) < 1" using assms by (simp add: field_simps)
  moreover have "expo a + 1 = - int (bitlen k - 1)" using e bl by simp
  ultimately have hi: "a < pow2 (expo a + 1)" by (simp add: pow2_neg_nat field_simps)
  show ?thesis using lo hi by simp
qed

lemma expo_unique:
  assumes "0 < a" and "pow2 e \<le> a" and "a < pow2 (e + 1)"
  shows "expo a = e"
proof (rule ccontr)
  assume ne: "expo a \<noteq> e"
  have b: "pow2 (expo a) \<le> a \<and> a < pow2 (expo a + 1)" using assms(1) by (rule expo_bounds)
  show False
  proof (cases "expo a < e")
    case True
    then have "pow2 (expo a + 1) \<le> pow2 e" by (intro pow2_le) simp
    then show False using b assms(2) by simp
  next
    case False
    then have "e + 1 \<le> expo a" using ne by simp
    then have "pow2 (e + 1) \<le> pow2 (expo a)" by (rule pow2_le)
    then show False using b assms(3) by simp
  qed
qed

lemma round_even_int [simp]: "round_even (of_int k) = k"
  by (simp add: round_even_def)

lemma round_even_err: "\<bar>of_int (round_even y) - y\<bar> \<le> 1 / 2"
  unfolding round_even_def Let_def by (auto simp add: abs_if) linarith+

lemma round_even_nonneg: "0 \<le> y \<Longrightarrow> 0 \<le> round_even y"
  unfolding round_even_def Let_def by auto

lemma round_even_near: "\<bar>y - of_int m\<bar> < 1 / 2 \<Longrightarrow> round_even y = m"
proof -
  assume h: "\<bar>y - of_int m\<bar> < 1 / 2"
  have e: "\<bar>of_int (round_even y) - y\<bar> \<le> 1 / 2" by (rule round_even_err)
  have "\<bar>of_int (round_even y) - (of_int m :: real)\<bar> < 1" using h e by linarith
  then have "\<bar>round_even y - m\<bar> < 1"
    by (metis of_int_diff of_int_abs of_int_less_1_iff)
  then show ?thesis by simp
qed

lemma round_even_tie_down: "even m \<Longrightarrow> round_even (of_int m + 1 / 2) = m"
proof -
  assume ev: "even m"
  have f: "\<lfloor>of_int m + (1 / 2 :: real)\<rfloor> = m" by linarith
  show ?thesis using ev by (simp add: round_even_def Let_def f)
qed

lemma round_even_tie_up: "odd m \<Longrightarrow> round_even (of_int m + 1 / 2) = m + 1"
proof -
  assume od: "odd m"
  have f: "\<lfloor>of_int m + (1 / 2 :: real)\<rfloor> = m" by linarith
  show ?thesis using od by (simp add: round_even_def Let_def f)
qed


lemma round_mag_int:
  assumes "0 < n" and "n < 2 ^ 53"
  shows "round_mag (of_int n) = of_int n"
proof -
  define a :: real where "a = of_int n"
  have a: "0 < a" "1 \<le> a" using assms(1) by (simp_all add: a_def)
  have b: "pow2 (expo a) \<le> a \<and> a < pow2 (expo a + 1)" using a(1) by (rule expo_bounds)
  have "a < pow2 53" using assms(2) by (simp add: a_def pow2_def)
  then have e1: "expo a < 53"
    using b pow2_le [of 53 "expo a"] by (cases "expo a < 53") auto
  have "pow2 0 < pow2 (expo a + 1)" using a(2) b by (simp add: pow2_def)
  then have e0: "0 \<le> expo a"
    using pow2_le [of "expo a + 1" 0] by (cases "0 \<le> expo a") auto
  define j where "j = nat (52 - expo a)"
  have p: "max (expo a - 52) (- 1074) = - int j" using e0 e1 by (simp add: j_def)
  have "a / pow2 (- int j) = of_int (n * 2 ^ j)" by (simp add: pow2_neg_nat a_def)
  then have "round_even (a / pow2 (- int j)) = n * 2 ^ j" by (simp only: round_even_int)
  then have "round_mag a = of_int (n * 2 ^ j) * pow2 (- int j)"
    by (simp add: round_mag_def p Let_def)
  also have "\<dots> = a" by (simp add: pow2_neg_nat a_def)
  finally show ?thesis by (simp add: a_def)
qed

lemma pow2_1024_int: "n < 2 ^ 53 \<Longrightarrow> \<not> pow2 1024 \<le> of_int n"
proof -
  assume "n < 2 ^ 53"
  then have "(of_int n :: real) < of_int (2 ^ 53)" by (simp only: of_int_less_iff)
  then have "(of_int n :: real) < pow2 53" by (simp add: pow2_def)
  moreover have "pow2 53 \<le> pow2 1024" by (rule pow2_le) simp
  ultimately show ?thesis by simp
qed

lemma rnd_int: "\<bar>n\<bar> < 2 ^ 53 \<Longrightarrow> rnd (of_int n) = Fin (of_int n)"
proof -
  assume h: "\<bar>n\<bar> < 2 ^ 53"
  consider "n = 0" | "0 < n" | "n < 0" by linarith
  then show ?thesis
  proof cases
    case 1
    then show ?thesis by (simp add: rnd_def)
  next
    case 2
    then have "n < 2 ^ 53" using h by simp
    then show ?thesis using 2 by (simp add: rnd_def round_mag_int pow2_1024_int Let_def)
  next
    case 3
    then have m: "0 < - n" "- n < 2 ^ 53" using h by simp_all
    have "round_mag (- of_int n) = of_int (- n)" using round_mag_int [OF m] by simp
    then show ?thesis using 3 m pow2_1024_int [OF m(2)] by (simp add: rnd_def Let_def)
  qed
qed

lemma rnd_bound:
  assumes "0 < x" and "x \<le> pow2 1023"
  shows "\<exists>y. rnd x = Fin y \<and> 0 \<le> y \<and> \<bar>y - x\<bar> \<le> x * pow2 (- 53) + pow2 (- 1075)"
proof -
  define p where "p = max (expo x - 52) (- 1074)"
  define m where "m = round_even (x / pow2 p)"
  define y where "y = of_int m * pow2 p"
  have b: "pow2 (expo x) \<le> x \<and> x < pow2 (expo x + 1)" using assms(1) by (rule expo_bounds)
  have rm: "round_mag x = y" by (simp add: round_mag_def p_def m_def y_def Let_def)
  have "0 \<le> x / pow2 p" by (intro divide_nonneg_pos less_imp_le assms(1) pow2_pos)
  then have m0: "0 \<le> m" unfolding m_def by (rule round_even_nonneg)
  then have y0: "0 \<le> y" by (simp add: y_def)
  have "\<bar>of_int m - x / pow2 p\<bar> \<le> 1 / 2" unfolding m_def by (rule round_even_err)
  then have "\<bar>of_int m - x / pow2 p\<bar> * pow2 p \<le> 1 / 2 * pow2 p"
    by (intro mult_right_mono) simp_all
  moreover have "\<bar>of_int m - x / pow2 p\<bar> * pow2 p = \<bar>y - x\<bar>"
  proof -
    have "\<bar>of_int m - x / pow2 p\<bar> * pow2 p = \<bar>(of_int m - x / pow2 p) * pow2 p\<bar>"
      by (simp add: abs_mult)
    also have "(of_int m - x / pow2 p) * pow2 p = y - x"
      by (simp add: y_def left_diff_distrib)
    finally show ?thesis .
  qed
  ultimately have err: "\<bar>y - x\<bar> \<le> pow2 p / 2" by simp
  have half: "pow2 p / 2 = pow2 (p - 1)" using pow2_Suc [of "p - 1"] by simp
  have bound: "pow2 (p - 1) \<le> x * pow2 (- 53) + pow2 (- 1075)"
  proof (cases "- 1074 \<le> expo x - 52")
    case True
    then have "p - 1 = expo x + (- 53)" by (simp add: p_def)
    then have "pow2 (p - 1) = pow2 (expo x) * pow2 (- 53)" by (simp only: pow2_add)
    also have "\<dots> \<le> x * pow2 (- 53)" using b by (intro mult_right_mono) simp_all
    finally show ?thesis by (smt (verit) pow2_pos)
  next
    case False
    then have pm: "p = - 1074" by (simp add: p_def)
    have "pow2 (p - 1) = pow2 (- 1075)" unfolding pm by simp
    moreover have "0 \<le> x * pow2 (- 53)" using assms(1) by (intro mult_nonneg_nonneg) simp_all
    ultimately show ?thesis by linarith
  qed
  have e: "\<bar>y - x\<bar> \<le> x * pow2 (- 53) + pow2 (- 1075)" using err half bound by simp
  have s1: "pow2 (- 53) \<le> 1 / 2"
  proof -
    have "pow2 (- 53) \<le> pow2 (- 1)" by (rule pow2_le) simp
    then show ?thesis by (simp add: pow2_def)
  qed
  have s2: "pow2 (- 1075) \<le> pow2 1023 / 4"
  proof -
    have "pow2 (- 1075) \<le> pow2 1021" by (rule pow2_le) simp
    moreover have "pow2 1023 = 4 * pow2 1021"
      using pow2_Suc [of 1021] pow2_Suc [of 1022] by simp
    ultimately show ?thesis by simp
  qed
  have "x * pow2 (- 53) \<le> x * (1 / 2)" using assms(1) s1 by (intro mult_left_mono) simp_all
  then have "y \<le> x + x / 2 + pow2 1023 / 4" using e s2 by (simp add: abs_le_iff) 
  then have "y < 2 * pow2 1023" using assms(2) pow2_pos [of 1023] by linarith
  then have "\<not> pow2 1024 \<le> y" using pow2_Suc [of 1023] by simp
  then have "rnd x = Fin y" using assms(1) by (simp add: rnd_def rm Let_def)
  then show ?thesis using y0 e by blast
qed

lemma rnd_cert:
  assumes "0 < x" and "pow2 e \<le> x" and "x < pow2 (e + 1)" and "- 1022 \<le> e" and "e < 1023"
    and "round_even (x / pow2 (e - 52)) = m"
  shows "rnd x = Fin (of_int m * pow2 (e - 52))"
proof -
  have ex: "expo x = e" using assms(1-3) by (rule expo_unique)
  have p: "max (e - 52) (- 1074) = e - 52" using assms(4) by simp
  have rm: "round_mag x = of_int m * pow2 (e - 52)"
    by (simp add: round_mag_def ex p assms(6) Let_def)
  have "pow2 (e + 1) \<le> pow2 1023" using assms(5) by (intro pow2_le) simp
  then have "x \<le> pow2 1023" using assms(3) by simp
  then obtain y where "rnd x = Fin y" using rnd_bound [OF assms(1)] by blast
  then show ?thesis using assms(1) rm by (simp add: rnd_def Let_def split: if_splits)
qed

lemma rnd_0 [simp]: "rnd 0 = Fin 0"
  by (simp add: rnd_def)

lemma rnd_1 [simp]: "rnd 1 = Fin 1"
  using rnd_int [of 1] by simp

lemma rnd_numeral: "(numeral k :: int) < 2 ^ 53 \<Longrightarrow> rnd (numeral k) = Fin (numeral k)"
  using rnd_int [of "numeral k"] by simp

lemma rnd_neg_numeral: "(numeral k :: int) < 2 ^ 53 \<Longrightarrow> rnd (- numeral k) = Fin (- numeral k)"
  using rnd_int [of "- numeral k"] by simp

lemmas num_defs =
  jadd_def jsub_def jmul_def jdiv_def jlt_def jge_def jmin_def is_zero_def ensureNumber_def
  rnd_numeral rnd_neg_numeral

lemmas eval_defs =
  accountBalances_def cashFlows_def opening_flows_def opening_step_def flow_step_def Let_def
  obj_get_def obj_set_def proto_functions_def tx_amt_def num_defs toBase_def USD_KRW_def
  totalsByType_def add_total_def positionsMV_def valuation_def totalAssetsBase_def sum_js_def
  obj_values_def index_of_def decimal.simps digit_of_def
  allocationActual_def allocationOf_def type_total_def lookup0_def ASSET_TYPES_def minus_num_def

section \<open>Deleting an account\<close>

text \<open>
  C7. Deleting an account keeps, in their order, exactly the accounts whose id differs from
  the deleted one, the transactions whose account reference differs from it and the
  positions whose account reference differs from it; an entry is in the new record set if
  and only if it was in the old one and does not refer to the deleted id.
\<close>

theorem removeAccount_cascade:
  "accounts (removeAccount i s) = filter (\<lambda>a. acc_id a \<noteq> i) (accounts s) \<and>
   transactions (removeAccount i s) = filter (\<lambda>t. accountId t \<noteq> i) (transactions s) \<and>
   positions (removeAccount i s) = filter (\<lambda>p. pos_accountId p \<noteq> i) (positions s) \<and>
   (a \<in> set (accounts (removeAccount i s)) \<longleftrightarrow> a \<in> set (accounts s) \<and> acc_id a \<noteq> i) \<and>
   (t \<in> set (transactions (removeAccount i s)) \<longleftrightarrow> t \<in> set (transactions s) \<and> accountId t \<noteq> i) \<and>
   (p \<in> set (positions (removeAccount i s)) \<longleftrightarrow> p \<in> set (positions s) \<and> pos_accountId p \<noteq> i) \<and>
   settings (removeAccount i s) = settings s \<and>
   targets (removeAccount i s) = targets s"
  by (simp add: removeAccount_def)

section \<open>Import, goals and valuations\<close>

text \<open>
  C9. When the imported text does not parse, the import shows the parse-failure message and
  the record set is the one before the import.
\<close>

theorem importJSON_failure:
  "parse text = None \<Longrightarrow> importJSON parse text s = (s, [ParseFailed])"
  by (simp add: importJSON_def)

theorem importJSON_failure_witness:
  "(\<lambda>_. None) ''{'' = (None :: state option) \<and>
   importJSON (\<lambda>_. None) ''{'' demo_state = (demo_state, [ParseFailed])"
  using importJSON_failure [of "\<lambda>_. None" "''{''" demo_state] by simp

lemma accountBalances_ids:
  "a \<in> set (accountBalances s) \<Longrightarrow> acc_id (ab_account a) \<in> acc_id ` set (accounts s)"
  by (auto simp add: accountBalances_def)

lemma progressFor_unmatched:
  assumes "j \<notin> acc_id ` set (accounts s)"
  shows "progressFor s (g\<lparr>accountIds := removeAll j (accountIds g)\<rparr>) = progressFor s g"
proof -
  have "filter (\<lambda>a. acc_id (ab_account a) \<in> set (removeAll j (accountIds g))) (accountBalances s) =
        filter (\<lambda>a. acc_id (ab_account a) \<in> set (accountIds g)) (accountBalances s)"
    using assms by (intro filter_cong refl) (auto dest: accountBalances_ids)
  then show ?thesis by (simp add: progressFor_def Let_def)
qed

text \<open>
  C10. Deleting an account leaves the list of goals as it is, linked account ids included.
  A linked id that matches no account contributes nothing to the progress of a goal: the
  progress is the same as without that id, in particular for the deleted id after the
  deletion.
\<close>

theorem removeAccount_goals:
  "goals (removeAccount i s) = goals s \<and>
   progressFor (removeAccount i s) (g\<lparr>accountIds := removeAll i (accountIds g)\<rparr>) =
     progressFor (removeAccount i s) g \<and>
   (j \<notin> acc_id ` set (accounts s) \<longrightarrow>
      progressFor s (g\<lparr>accountIds := removeAll j (accountIds g)\<rparr>) = progressFor s g)"
proof -
  have "i \<notin> acc_id ` set (accounts (removeAccount i s))"
    by (auto simp add: removeAccount_def)
  then show ?thesis
    by (simp add: progressFor_unmatched) (simp add: removeAccount_def)
qed

lemma demo_flows:
  "cashFlows demo_accounts demo_transactions =
     [(''a1'', Num (Fin 3000000)), (''a2'', Num (Fin 9501000))]"
  by (simp add: eval_defs demo_accounts_def demo_transactions_def)

theorem removeAccount_goals_witness:
  "''gone'' \<notin> acc_id ` set (accounts demo_state) \<and>
   goals (removeAccount ''a2'' demo_state) = goals demo_state \<and>
   progressFor demo_state demo_goal = (Fin 3000000, Fin 100) \<and>
   progressFor demo_state (demo_goal\<lparr>accountIds := [''a1'']\<rparr>) = (Fin 3000000, Fin 100) \<and>
   progressFor (removeAccount ''a1'' demo_state) demo_goal = (Fin 0, Fin 0)"
proof -
  have n: "''gone'' \<notin> acc_id ` set (accounts demo_state)"
    by (simp add: demo_state_def demo_accounts_def)
  have p: "progressFor demo_state demo_goal = (Fin 3000000, Fin 100)"
    by (simp add: progressFor_def eval_defs demo_state_def demo_accounts_def demo_transactions_def
        demo_settings_def demo_goal_def)
  have q: "progressFor (removeAccount ''a1'' demo_state) demo_goal = (Fin 0, Fin 0)"
    by (simp add: progressFor_def eval_defs removeAccount_def demo_state_def demo_accounts_def
        demo_transactions_def demo_settings_def demo_goal_def)
  have r: "removeAll ''gone'' (accountIds demo_goal) = [''a1'']" by (simp add: demo_goal_def)
  show ?thesis
    using removeAccount_goals [of "''a2''" demo_state demo_goal "''gone''"] n p q r by simp
qed

text \<open>
  C6. A position whose average price and last price are both 0, which is what the form for
  adding a position starts with, has a percentage profit that is \<open>NaN\<close>: the quotient of
  the two prices is \<open>0/0\<close>.
\<close>

theorem pnlPct_blank_position:
  "pnlPct (valuation demo_state blank_position) = NaN \<and>
   pnlPct (hd (positionsMV (demo_state\<lparr>positions := [blank_position]\<rparr>))) = NaN"
  by (simp add: positionsMV_def valuation_def blank_position_def num_defs)

end
